theory Spec2Isabelle
  imports Main
begin

section \<open>The Site Automation block's edit component\<close>

text \<open>
  A shallow embedding of the three routines of \<^verbatim>\<open>SiteAutomationBlockEdit\<close>:
  \<^verbatim>\<open>getPosts\<close> (list population), \<^verbatim>\<open>updatePost\<close> (the write call) and
  \<^verbatim>\<open>updateInnerBlocks\<close> (the override merge). Every call into the host (the network,
  the alert box, the console, the block-editor store) is recorded as an event, in the
  order the routine issues it; the answer of the network is a parameter.
\<close>

subsection \<open>JavaScript values\<close>

text \<open>
  The values block attributes and response fields hold. Numbers are integers here: the
  only number the routines compute is \<^verbatim>\<open>index + 1\<close>.
\<close>

datatype jsval = JUndefined | JNull | JBool bool | JNum int | JStr string

text \<open>What \<^verbatim>\<open>v ? a : b\<close> and \<^verbatim>\<open>&&\<close> test.\<close>

fun truthy :: "jsval \<Rightarrow> bool" where
  "truthy JUndefined = False"
| "truthy JNull = False"
| "truthy (JBool b) = b"
| "truthy (JNum n) = (n \<noteq> 0)"
| "truthy (JStr s) = (s \<noteq> [])"

datatype error = TypeError

subsection \<open>Props, blocks, requests\<close>

text \<open>
  The props of the component after destructuring, so after the defaults \<^verbatim>\<open>''\<close> and
  \<^verbatim>\<open>false\<close> have replaced missing attributes; the names are strings and the toggles
  booleans, as the component's documentation types them.
\<close>

record props =
  pageName :: string
  widgetName :: string
  displayPostExcept :: bool
  displayAuthor :: bool
  displayPostDate :: bool
  displayFeaturedImage :: bool
  addLinkToFeaturedImage :: bool
  clientId :: string

text \<open>
  The attributes of a \<^verbatim>\<open>sophi/page-list-item\<close> block. An attribute a block does not
  have reads as \<^verbatim>\<open>undefined\<close>.
\<close>

record item_attributes =
  postUpdated :: jsval
  postLink :: jsval
  postTitle :: jsval
  postExcept :: jsval
  featuredImage :: jsval
  linkToFeaturedImage :: jsval
  postAuthor :: jsval
  postDate :: jsval
  postDateC :: jsval
  overrideRule :: jsval
  overridePostID :: jsval
  overrideExpiry :: jsval

record block =
  name :: string
  attributes :: item_attributes

text \<open>
  An array of blocks. An element can be \<^verbatim>\<open>undefined\<close> (\<open>None\<close>): the merge
  routine can splice a missing element into the array.
\<close>

type_synonym blocks = "block option list"

text \<open>A record of the response of \<^verbatim>\<open>get-posts\<close>.\<close>

record post_record =
  item_postLink :: jsval
  item_post_title :: jsval
  item_post_excerpt :: jsval
  item_featuredImage :: jsval
  item_postAuthor :: jsval
  item_postDate :: jsval
  item_postDateC :: jsval

text \<open>
  What a request resolves with: an array of post records, or a value with no truthy
  \<^verbatim>\<open>length\<close> (\<^verbatim>\<open>null\<close>, a number, an object, the empty string), which
  \<^verbatim>\<open>data?.length\<close> treats as an empty answer. A request can also be rejected.
\<close>

datatype api_data = DataArray "post_record list" | DataNoLength

datatype response = Resolved api_data | Rejected string

datatype http_verb = GET | POST

text \<open>
  The options object handed to \<^verbatim>\<open>apiFetch\<close>: the path (an endpoint with its query
  arguments), the method (the field \<open>http_method\<close>) and the request body
  \<^verbatim>\<open>data\<close>, which neither call of this component passes.
\<close>

type_synonym query_args = "(string \<times> jsval) list"

record fetch_options =
  path :: "string \<times> query_args"
  http_method :: http_verb
  data :: "query_args option"

definition addQueryArgs :: "string \<Rightarrow> query_args \<Rightarrow> string \<times> query_args" where
  "addQueryArgs url args = (url, args)"

datatype console_arg = LogData api_data | LogErr string

datatype event =
    ApiFetch fetch_options
  | Alert string
  | ConsoleLog console_arg
  | ConsoleDir console_arg
  | ReplaceInnerBlocks string blocks bool

definition sophiEndpoint :: string where
  "sophiEndpoint = ''/sophi/v1/''"

subsection \<open>Array primitives\<close>

text \<open>\<^verbatim>\<open>xs[i]\<close>: out of range, the read gives \<^verbatim>\<open>undefined\<close>.\<close>

definition at :: "'a option list \<Rightarrow> int \<Rightarrow> 'a option" where
  "at xs i = (if 0 \<le> i \<and> nat i < length xs then xs ! nat i else None)"

text \<open>
  \<^verbatim>\<open>xs.findIndex(cb)\<close>: the index of the first element the callback accepts, or
  \<open>-1\<close>; a callback that throws ends the search with its error.
\<close>

fun findIndex_from :: "('a \<Rightarrow> error + bool) \<Rightarrow> 'a list \<Rightarrow> int \<Rightarrow> error + int" where
  "findIndex_from cb [] k = Inr (- 1)"
| "findIndex_from cb (x # xs) k =
     (case cb x of
        Inl e \<Rightarrow> Inl e
      | Inr True \<Rightarrow> Inr k
      | Inr False \<Rightarrow> findIndex_from cb xs (k + 1))"

definition findIndex :: "('a \<Rightarrow> error + bool) \<Rightarrow> 'a list \<Rightarrow> error + int" where
  "findIndex cb xs = findIndex_from cb xs 0"

text \<open>
  \<^verbatim>\<open>xs.splice(start, 0, x)\<close> for \<open>start \<ge> 0\<close>: \<open>x\<close> goes in at \<open>start\<close>, or at the
  end when \<open>start\<close> is beyond it.
\<close>

definition splice :: "nat \<Rightarrow> 'a \<Rightarrow> 'a list \<Rightarrow> 'a list" where
  "splice start x xs = take start xs @ [x] @ drop start xs"

subsection \<open>List population\<close>

text \<open>
  \<^verbatim>\<open>createBlock(name, attributes)\<close> of the host: a block of that name with the given
  attributes. The client id the host draws for it is left out.
\<close>

definition createBlock :: "string \<Rightarrow> item_attributes \<Rightarrow> block" where
  "createBlock n attrs = \<lparr>name = n, attributes = attrs\<rparr>"

text \<open>The attributes object built for one response record.\<close>

definition itemAttributes :: "props \<Rightarrow> post_record \<Rightarrow> item_attributes" where
  "itemAttributes p item =
     \<lparr>postUpdated = JBool False,
      postLink = item_postLink item,
      postTitle = item_post_title item,
      postExcept = (if displayPostExcept p then item_post_excerpt item else JStr ''''),
      featuredImage =
        (if displayFeaturedImage p \<and> truthy (item_featuredImage item)
         then item_featuredImage item else JStr ''''),
      linkToFeaturedImage = JBool (addLinkToFeaturedImage p),
      postAuthor = (if displayAuthor p then item_postAuthor item else JStr ''''),
      postDate = (if displayPostDate p then item_postDate item else JStr ''''),
      postDateC = (if displayPostDate p then item_postDateC item else JStr ''''),
      overrideRule = JUndefined,
      overridePostID = JUndefined,
      overrideExpiry = JUndefined\<rparr>"

text \<open>
  The request of \<^verbatim>\<open>getPosts\<close>: the query arguments go into the path; the options
  have no body.
\<close>

definition getPostsRequest :: "props \<Rightarrow> jsval \<Rightarrow> fetch_options" where
  "getPostsRequest p ovID =
     (let queryArgs =
        [(''overridePostID'', ovID),
         (''pageName'', JStr (pageName p)),
         (''widgetName'', JStr (widgetName p)),
         (''displayFeaturedImage'', JBool (displayFeaturedImage p)),
         (''displayAuthor'', JBool (displayAuthor p)),
         (''displayPostDate'', JBool (displayPostDate p)),
         (''displayPostExcept'', JBool (displayPostExcept p))]
      in \<lparr>path = addQueryArgs (sophiEndpoint @ ''get-posts'') queryArgs,
          http_method = GET, data = None\<rparr>)"

text \<open>
  The two callbacks of \<^verbatim>\<open>.then\<close>: what they push onto \<^verbatim>\<open>updatedInnerBlocks\<close> and
  the events they cause. The notice is the message as the source has it, before the
  host translates it.
\<close>

definition onSettled :: "props \<Rightarrow> response \<Rightarrow> blocks \<times> event list" where
  "onSettled p r =
     (case r of
        Resolved d \<Rightarrow>
          (case d of
             DataArray items \<Rightarrow>
               if length items \<noteq> 0
               then (map (\<lambda>item. Some (createBlock ''sophi/page-list-item'' (itemAttributes p item))) items, [])
               else ([], [Alert ''Posts not found in the site!''])
           | DataNoLength \<Rightarrow> ([], [Alert ''Posts not found in the site!'']))
      | Rejected err \<Rightarrow> ([], [ConsoleLog (LogErr err)]))"

text \<open>
  \<^verbatim>\<open>getPosts(overridePostID = '')\<close>: the value returned (\<open>None\<close> is
  \<^verbatim>\<open>undefined\<close>) and the events, in order.
\<close>

definition getPosts :: "props \<Rightarrow> (fetch_options \<Rightarrow> response) \<Rightarrow> jsval \<Rightarrow> blocks option \<times> event list" where
  "getPosts p net arg =
     (let ovID = (if arg = JUndefined then JStr '''' else arg) in
      if pageName p = '''' \<or> widgetName p = '''' then (None, [])
      else
        let req = getPostsRequest p ovID;
            (updatedInnerBlocks, evs) = onSettled p (net req)
        in if ovID \<noteq> JStr '''' then (Some updatedInnerBlocks, ApiFetch req # evs)
           else (None, ApiFetch req # evs @ [ReplaceInnerBlocks (clientId p) updatedInnerBlocks False]))"

subsection \<open>The write call\<close>

text \<open>The request of \<^verbatim>\<open>updatePost\<close>, built the same way.\<close>

definition updatePostRequest :: "props \<Rightarrow> jsval \<Rightarrow> jsval \<Rightarrow> jsval \<Rightarrow> jsval \<Rightarrow> fetch_options" where
  "updatePostRequest p ruleType ovID ovExpiry position =
     (let queryArgs =
        [(''ruleType'', ruleType),
         (''overridePostID'', ovID),
         (''overrideExpiry'', ovExpiry),
         (''position'', position),
         (''pageName'', JStr (pageName p)),
         (''widgetName'', JStr (widgetName p))]
      in \<lparr>path = addQueryArgs (sophiEndpoint @ ''update-posts'') queryArgs,
          http_method = POST, data = None\<rparr>)"

text \<open>
  \<^verbatim>\<open>updatePost({ruleType, overridePostID, overrideExpiry, position})\<close>: the request
  and, once it settles, the log line. The routine returns nothing.
\<close>

definition updatePost :: "props \<Rightarrow> (fetch_options \<Rightarrow> response) \<Rightarrow> jsval \<Rightarrow> jsval \<Rightarrow> jsval \<Rightarrow> jsval \<Rightarrow> event list" where
  "updatePost p net ruleType ovID ovExpiry position =
     (let req = updatePostRequest p ruleType ovID ovExpiry position in
      ApiFetch req #
        (case net req of
           Resolved d \<Rightarrow> [ConsoleLog (LogData d)]
         | Rejected err \<Rightarrow> [ConsoleDir (LogErr err)]))"

subsection \<open>Override merge\<close>

text \<open>The callback of \<^verbatim>\<open>findIndex\<close>; reading \<^verbatim>\<open>.attributes\<close> of \<^verbatim>\<open>undefined\<close> throws.\<close>

definition isUpdated :: "block option \<Rightarrow> error + bool" where
  "isUpdated item =
     (case item of
        None \<Rightarrow> Inl TypeError
      | Some b \<Rightarrow> Inr (postUpdated (attributes b) = JBool True))"

text \<open>
  \<^verbatim>\<open>updateInnerBlocks()\<close> on the array \<^verbatim>\<open>innerBlocks\<close> the component holds
  (\<open>None\<close> when it is \<^verbatim>\<open>undefined\<close>). The array and its blocks are changed in place,
  so the result has the array as the routine leaves it, also when the routine throws;
  with it come how the routine ends and the events. The blocks of the array are taken to
  be distinct objects. The routine does not await \<^verbatim>\<open>updatePost\<close>, its last step,
  so the events of the write call come last.
\<close>

definition updateInnerBlocks ::
  "props \<Rightarrow> (fetch_options \<Rightarrow> response) \<Rightarrow> blocks option \<Rightarrow> (error + unit) \<times> blocks option \<times> event list" where
  "updateInnerBlocks p net innerBlocks =
     (case innerBlocks of
        None \<Rightarrow> (Inr (), None, [])
      | Some arr \<Rightarrow>
          (case findIndex isUpdated arr of
             Inl e \<Rightarrow> (Inl e, Some arr, [])
           | Inr index \<Rightarrow>
               if index \<noteq> - 1 then
                 (case at arr index of
                    None \<Rightarrow> (Inl TypeError, Some arr, [])
                  | Some b \<Rightarrow>
                      let b1 = b\<lparr>attributes := (attributes b)\<lparr>postUpdated := JBool False\<rparr>\<rparr>;
                          arr1 = arr[nat index := Some b1]
                      in if overrideRule (attributes b1) = JStr ''in'' then
                           let b2 = b1\<lparr>attributes := (attributes b1)\<lparr>overrideRule := JStr ''''\<rparr>\<rparr>;
                               arr2 = arr1[nat index := Some b2];
                               ovID = overridePostID (attributes b2);
                               ovExpiry = overrideExpiry (attributes b2);
                               (newInnerBlocks, evs) = getPosts p net ovID
                           in (case newInnerBlocks of
                                 None \<Rightarrow> (Inl TypeError, Some arr2, evs)
                               | Some new \<Rightarrow>
                                   let arr3 = splice (nat (index + 1)) (at new 0) arr2
                                   in (Inr (), Some arr3,
                                       evs @ [ReplaceInnerBlocks (clientId p) arr3 False]
                                         @ updatePost p net (JStr ''in'') ovID ovExpiry (JNum (index + 1))))
                         else (Inr (), Some arr1, []))
               else (Inr (), Some arr, [])))"

subsection \<open>Concrete inputs\<close>

text \<open>
  A configured block, one response record, two networks (one that answers every request
  with that record, one that answers with the empty array) and a child item with a given
  \<open>postUpdated\<close> flag and override rule.
\<close>

definition ex_props :: props where
  "ex_props =
     \<lparr>pageName = ''home'', widgetName = ''top'',
      displayPostExcept = True, displayAuthor = False, displayPostDate = False,
      displayFeaturedImage = False, addLinkToFeaturedImage = False, clientId = ''c1''\<rparr>"

definition ex_record :: post_record where
  "ex_record =
     \<lparr>item_postLink = JStr ''/a'', item_post_title = JStr ''A'',
      item_post_excerpt = JStr ''ex'', item_featuredImage = JStr ''img'',
      item_postAuthor = JStr ''ann'', item_postDate = JStr ''May 1'',
      item_postDateC = JStr ''2021-05-01''\<rparr>"

definition ex_net :: "fetch_options \<Rightarrow> response" where
  "ex_net req = Resolved (DataArray [ex_record])"

definition ex_net_empty :: "fetch_options \<Rightarrow> response" where
  "ex_net_empty req = Resolved (DataArray [])"

definition ex_item :: "jsval \<Rightarrow> jsval \<Rightarrow> block" where
  "ex_item upd rule =
     \<lparr>name = ''sophi/page-list-item'',
      attributes =
        \<lparr>postUpdated = upd, postLink = JStr ''/b'', postTitle = JStr ''B'',
         postExcept = JStr '''', featuredImage = JStr '''', linkToFeaturedImage = JBool False,
         postAuthor = JStr '''', postDate = JStr '''', postDateC = JStr '''',
         overrideRule = rule, overridePostID = JNum 42, overrideExpiry = JStr ''2''\<rparr>\<rparr>"

section \<open>Properties\<close>

subsection \<open>Array search\<close>

text \<open>
  The search stops at the first element the callback accepts, when the callback
  rejects every element before it without throwing.
\<close>

lemma findIndex_from_first:
  "i < length xs \<Longrightarrow> cb (xs ! i) = Inr True \<Longrightarrow> \<forall>j<i. cb (xs ! j) = Inr False
   \<Longrightarrow> findIndex_from cb xs k = Inr (k + int i)"
proof (induction xs arbitrary: i k)
  case Nil
  then show ?case by simp
next
  case (Cons x xs)
  show ?case
  proof (cases i)
    case 0
    with Cons.prems show ?thesis by simp
  next
    case (Suc n)
    from Cons.prems(3) Suc have head: "cb x = Inr False" by auto
    from Cons.prems(3) Suc have rest: "\<forall>j<n. cb (xs ! j) = Inr False" by auto
    from Cons.prems(1,2) Suc have "n < length xs" "cb (xs ! n) = Inr True" by auto
    from Cons.IH [OF this rest, of "k + 1"] head Suc show ?thesis by simp
  qed
qed

lemma findIndex_from_absent:
  "\<forall>x\<in>set xs. cb x \<noteq> Inr True \<Longrightarrow>
   findIndex_from cb xs k = Inr (- 1) \<or> (\<exists>e. findIndex_from cb xs k = Inl e)"
  by (induction xs arbitrary: k) (auto split: sum.splits bool.splits)

lemma findIndex_from_absent_defined:
  "\<forall>x\<in>set xs. cb x = Inr False \<Longrightarrow> findIndex_from cb xs k = Inr (- 1)"
  by (induction xs arbitrary: k) auto

subsection \<open>The merge at the first flagged item\<close>

lemma first_updated_index:
  assumes "i < length arr" and "arr ! i = Some b"
    and "postUpdated (attributes b) = JBool True"
    and "\<forall>j<i. \<exists>c. arr ! j = Some c \<and> postUpdated (attributes c) \<noteq> JBool True"
  shows "findIndex isUpdated arr = Inr (int i)" and "at arr (int i) = Some b"
proof -
  have hit: "isUpdated (arr ! i) = Inr True"
    using assms(2,3) by (simp add: isUpdated_def)
  have before: "\<forall>j<i. isUpdated (arr ! j) = Inr False"
    using assms(4) by (auto simp: isUpdated_def)
  show "findIndex isUpdated arr = Inr (int i)"
    using findIndex_from_first [OF assms(1) hit before, of 0] by (simp add: findIndex_def)
  show "at arr (int i) = Some b"
    using assms(1,2) by (simp add: at_def)
qed

text \<open>
  With the rule \<^verbatim>\<open>'in'\<close> at the first flagged item, the merge goes on as the result
  of \<open>getPosts\<close> decides: \<^verbatim>\<open>undefined[0]\<close> throws, an array gives its element 0 to
  \<^verbatim>\<open>splice\<close>.
\<close>

lemma updateInnerBlocks_in:
  assumes "i < length arr" and "arr ! i = Some b"
    and "postUpdated (attributes b) = JBool True"
    and "\<forall>j<i. \<exists>c. arr ! j = Some c \<and> postUpdated (attributes c) \<noteq> JBool True"
    and "overrideRule (attributes b) = JStr ''in''"
  shows "updateInnerBlocks p net (Some arr) =
    (let arr2 = arr[i := Some (b\<lparr>attributes :=
                  (attributes b)\<lparr>postUpdated := JBool False, overrideRule := JStr ''''\<rparr>\<rparr>)];
         ovID = overridePostID (attributes b);
         ovExpiry = overrideExpiry (attributes b)
     in case getPosts p net ovID of
          (None, evs) \<Rightarrow> (Inl TypeError, Some arr2, evs)
        | (Some new, evs) \<Rightarrow>
            (Inr (), Some (splice (Suc i) (at new 0) arr2),
             evs @ [ReplaceInnerBlocks (clientId p) (splice (Suc i) (at new 0) arr2) False]
               @ updatePost p net (JStr ''in'') ovID ovExpiry (JNum (int i + 1))))"
  using assms(5) first_updated_index [OF assms(1-4)]
  by (simp add: updateInnerBlocks_def Let_def nat_add_distrib split: prod.splits option.splits)

text \<open>In peek mode with both names set, \<open>getPosts\<close> returns what the callbacks built.\<close>

lemma getPosts_peek_result:
  assumes "pageName p \<noteq> ''''" and "widgetName p \<noteq> ''''"
    and "ovID \<noteq> JUndefined" and "ovID \<noteq> JStr ''''"
  shows "getPosts p net ovID =
    (Some (fst (onSettled p (net (getPostsRequest p ovID)))),
     ApiFetch (getPostsRequest p ovID) # snd (onSettled p (net (getPostsRequest p ovID))))"
  using assms by (simp add: getPosts_def Let_def split: prod.splits)

subsection \<open>List population\<close>

text \<open>
  C9: when \<open>pageName\<close> or \<open>widgetName\<close> is the empty string, \<open>getPosts\<close> returns at
  once: it issues no request and no other event, so the child list is not replaced, and
  it returns \<^verbatim>\<open>undefined\<close>, not an array, whatever the override post ID.
\<close>

theorem getPosts_empty_name:
  assumes "pageName p = '''' \<or> widgetName p = ''''"
  shows "getPosts p net arg = (None, [])"
  using assms by (simp add: getPosts_def)

theorem getPosts_empty_name_witness:
  "getPosts (ex_props\<lparr>pageName := ''''\<rparr>) ex_net (JNum 42) = (None, [])"
  using getPosts_empty_name [of "ex_props\<lparr>pageName := ''''\<rparr>" ex_net "JNum 42"]
  by simp

text \<open>
  C2: when both names are set and the endpoint resolves with a non-empty array,
  \<open>getPosts\<close> constructs one \<^verbatim>\<open>sophi/page-list-item\<close> block per response record, in
  order, so as many blocks as the response has records; it hands them to
  \<^verbatim>\<open>replaceInnerBlocks\<close>, or returns them in peek mode. Each block takes its link and
  title from the record, and its excerpt, author, dates and featured image from the
  record as the display toggles allow.
\<close>

theorem getPosts_nonempty_response:
  assumes "pageName p \<noteq> ''''" and "widgetName p \<noteq> ''''"
    and "net (getPostsRequest p (if arg = JUndefined then JStr '''' else arg)) = Resolved (DataArray items)"
    and "items \<noteq> []"
  shows
    "(let req = getPostsRequest p (if arg = JUndefined then JStr '''' else arg);
          bs = map (\<lambda>item. Some (createBlock ''sophi/page-list-item'' (itemAttributes p item))) items
      in getPosts p net arg =
           (if arg = JUndefined \<or> arg = JStr ''''
            then (None, [ApiFetch req, ReplaceInnerBlocks (clientId p) bs False])
            else (Some bs, [ApiFetch req]))
         \<and> length bs = length items
         \<and> (\<forall>k<length items. \<exists>b. bs ! k = Some b
               \<and> name b = ''sophi/page-list-item''
               \<and> postUpdated (attributes b) = JBool False
               \<and> postLink (attributes b) = item_postLink (items ! k)
               \<and> postTitle (attributes b) = item_post_title (items ! k)
               \<and> postExcept (attributes b) =
                   (if displayPostExcept p then item_post_excerpt (items ! k) else JStr '''')
               \<and> postAuthor (attributes b) =
                   (if displayAuthor p then item_postAuthor (items ! k) else JStr '''')
               \<and> postDate (attributes b) =
                   (if displayPostDate p then item_postDate (items ! k) else JStr '''')
               \<and> postDateC (attributes b) =
                   (if displayPostDate p then item_postDateC (items ! k) else JStr '''')
               \<and> featuredImage (attributes b) =
                   (if displayFeaturedImage p \<and> truthy (item_featuredImage (items ! k))
                    then item_featuredImage (items ! k) else JStr '''')
               \<and> linkToFeaturedImage (attributes b) = JBool (addLinkToFeaturedImage p)))"
proof -
  have run: "getPosts p net arg =
      (if arg = JUndefined \<or> arg = JStr ''''
       then (None, [ApiFetch (getPostsRequest p (if arg = JUndefined then JStr '''' else arg)),
                    ReplaceInnerBlocks (clientId p)
                      (map (\<lambda>item. Some (createBlock ''sophi/page-list-item'' (itemAttributes p item))) items) False])
       else (Some (map (\<lambda>item. Some (createBlock ''sophi/page-list-item'' (itemAttributes p item))) items),
             [ApiFetch (getPostsRequest p (if arg = JUndefined then JStr '''' else arg))]))"
    using assms by (simp add: getPosts_def onSettled_def Let_def)
  show ?thesis
    unfolding Let_def
    by (intro conjI run) (simp_all add: createBlock_def itemAttributes_def)
qed

theorem getPosts_nonempty_response_witness:
  "getPosts ex_props ex_net JUndefined =
     (None, [ApiFetch (getPostsRequest ex_props (JStr '''')),
             ReplaceInnerBlocks ''c1''
               [Some (createBlock ''sophi/page-list-item'' (itemAttributes ex_props ex_record))] False])"
  using getPosts_nonempty_response [of ex_props ex_net JUndefined "[ex_record]"]
  by (simp add: ex_props_def ex_net_def Let_def)

text \<open>
  C3 (as the code has it): when both names are set and the endpoint resolves with the
  empty array, \<open>getPosts\<close> raises the notice \<^verbatim>\<open>Posts not found in the site!\<close>. In
  peek mode it then returns the empty array and replaces nothing; otherwise it goes on
  to \<^verbatim>\<open>replaceInnerBlocks\<close> and replaces the child list with the empty array.
\<close>

theorem getPosts_empty_response:
  assumes "pageName p \<noteq> ''''" and "widgetName p \<noteq> ''''"
    and "net (getPostsRequest p (if arg = JUndefined then JStr '''' else arg)) = Resolved (DataArray [])"
  shows "getPosts p net arg =
    (if arg = JUndefined \<or> arg = JStr ''''
     then (None, [ApiFetch (getPostsRequest p (JStr '''')),
                  Alert ''Posts not found in the site!'',
                  ReplaceInnerBlocks (clientId p) [] False])
     else (Some [], [ApiFetch (getPostsRequest p arg), Alert ''Posts not found in the site!'']))"
  using assms by (auto simp add: getPosts_def onSettled_def Let_def)

theorem getPosts_empty_response_witness:
  "getPosts ex_props ex_net_empty (JNum 42) =
     (Some [], [ApiFetch (getPostsRequest ex_props (JNum 42)), Alert ''Posts not found in the site!''])"
  using getPosts_empty_response [of ex_props ex_net_empty "JNum 42"]
  by (simp add: ex_props_def ex_net_empty_def)

text \<open>
  C3 as stated fails without an override post ID: after the notice, the child list is
  replaced by the empty array.
\<close>

theorem getPosts_empty_response_replaces:
  "getPosts ex_props ex_net_empty JUndefined =
     (None, [ApiFetch (getPostsRequest ex_props (JStr '''')),
             Alert ''Posts not found in the site!'',
             ReplaceInnerBlocks ''c1'' [] False])"
  by (simp add: getPosts_def onSettled_def ex_props_def ex_net_empty_def)

text \<open>
  Every block the callbacks push is built by \<open>createBlock\<close> from a response record,
  and the callbacks never replace the child list themselves.
\<close>

lemma onSettled_built:
  "onSettled p resp = (bs, evs) \<Longrightarrow> Some b \<in> set bs \<Longrightarrow>
   \<exists>item. b = createBlock ''sophi/page-list-item'' (itemAttributes p item)"
  by (auto simp: onSettled_def split: response.splits api_data.splits if_splits)

lemma onSettled_events:
  "onSettled p resp = (bs, evs) \<Longrightarrow> ReplaceInnerBlocks cid cs fl \<notin> set evs"
  by (auto simp: onSettled_def split: response.splits api_data.splits if_splits)

text \<open>
  C4: in every block \<open>getPosts\<close> constructs, whether returned (peek mode) or handed to
  \<^verbatim>\<open>replaceInnerBlocks\<close>, the excerpt, the author, the two dates and the featured
  image are the empty string when their toggle is off; so a field is populated only
  when its toggle is on.
\<close>

theorem getPosts_display_toggles:
  assumes "getPosts p net arg = (r, evs)"
    and "r = Some bs \<or> ReplaceInnerBlocks cid bs fl \<in> set evs"
    and "Some b \<in> set bs"
  shows "(\<not> displayPostExcept p \<longrightarrow> postExcept (attributes b) = JStr '''')
       \<and> (\<not> displayAuthor p \<longrightarrow> postAuthor (attributes b) = JStr '''')
       \<and> (\<not> displayPostDate p \<longrightarrow>
             postDate (attributes b) = JStr '''' \<and> postDateC (attributes b) = JStr '''')
       \<and> (\<not> displayFeaturedImage p \<longrightarrow> featuredImage (attributes b) = JStr '''')"
proof -
  have "\<exists>resp evs'. onSettled p resp = (bs, evs')"
    using assms(1,2)
    by (auto simp: getPosts_def Let_def split: if_splits prod.splits)
      (blast dest: onSettled_events)+
  then obtain item where "b = createBlock ''sophi/page-list-item'' (itemAttributes p item)"
    using assms(3) onSettled_built by blast
  then show ?thesis
    by (simp add: createBlock_def itemAttributes_def)
qed

theorem getPosts_display_toggles_witness:
  "postAuthor (itemAttributes ex_props ex_record) = JStr ''''
   \<and> postDate (itemAttributes ex_props ex_record) = JStr ''''
   \<and> postDateC (itemAttributes ex_props ex_record) = JStr ''''
   \<and> featuredImage (itemAttributes ex_props ex_record) = JStr ''''"
  using getPosts_display_toggles [of ex_props ex_net "JNum 42"
      "Some [Some (createBlock ''sophi/page-list-item'' (itemAttributes ex_props ex_record))]"
      "[ApiFetch (getPostsRequest ex_props (JNum 42))]"
      "[Some (createBlock ''sophi/page-list-item'' (itemAttributes ex_props ex_record))]"
      "''c1''" False
      "createBlock ''sophi/page-list-item'' (itemAttributes ex_props ex_record)"]
    getPosts_peek_result [of ex_props "JNum 42" ex_net]
  by (simp add: ex_props_def ex_net_def onSettled_def createBlock_def)

text \<open>
  C6 (as the code has it): called with an override post ID that is neither
  \<^verbatim>\<open>undefined\<close> nor the empty string, \<open>getPosts\<close> never replaces the child list; and
  when both names are set it returns the array of constructed blocks (empty when the
  response is empty or has no length, or the request is rejected).
\<close>

theorem getPosts_peek:
  assumes "arg \<noteq> JUndefined" and "arg \<noteq> JStr ''''"
  shows "(\<forall>cid bs fl. ReplaceInnerBlocks cid bs fl \<notin> set (snd (getPosts p net arg)))
    \<and> (pageName p \<noteq> '''' \<and> widgetName p \<noteq> '''' \<longrightarrow>
         fst (getPosts p net arg) =
           Some (case net (getPostsRequest p arg) of
                   Resolved (DataArray items) \<Rightarrow>
                     map (\<lambda>item. Some (createBlock ''sophi/page-list-item'' (itemAttributes p item))) items
                 | _ \<Rightarrow> []))"
  using assms
  by (auto simp: getPosts_def onSettled_def Let_def
        split: prod.splits response.splits api_data.splits if_splits)

theorem getPosts_peek_witness:
  "ReplaceInnerBlocks ''c1'' [] False \<notin> set (snd (getPosts ex_props ex_net (JNum 42)))
   \<and> fst (getPosts ex_props ex_net (JNum 42)) =
       Some [Some (createBlock ''sophi/page-list-item'' (itemAttributes ex_props ex_record))]"
  using getPosts_peek [of "JNum 42" ex_props ex_net]
  by (simp add: ex_props_def ex_net_def)

text \<open>
  C6 as stated fails when a name is missing: with an override post ID, \<open>getPosts\<close>
  returns \<^verbatim>\<open>undefined\<close>, not an array.
\<close>

theorem getPosts_peek_returns_undefined:
  "getPosts (ex_props\<lparr>widgetName := ''''\<rparr>) ex_net (JStr ''42'') = (None, [])"
  by (simp add: getPosts_def ex_props_def)

subsection \<open>Override merge\<close>

text \<open>
  C5: when no item of the child list is flagged \<open>postUpdated\<close> (\<^verbatim>\<open>findIndex\<close> finds
  nothing), the merge leaves the array and every item as they are and causes no event:
  no request, so no write call, and no replacement. When every element is a block, the
  search returns \<open>-1\<close> and the routine ends normally.
\<close>

theorem updateInnerBlocks_none_updated:
  assumes "\<forall>b. Some b \<in> set arr \<longrightarrow> postUpdated (attributes b) \<noteq> JBool True"
  shows "snd (updateInnerBlocks p net (Some arr)) = (Some arr, [])
       \<and> (None \<notin> set arr \<longrightarrow> fst (updateInnerBlocks p net (Some arr)) = Inr ())"
proof -
  have no_hit: "\<forall>x\<in>set arr. isUpdated x \<noteq> Inr True"
    using assms by (auto simp: isUpdated_def split: option.splits)
  have frame: "snd (updateInnerBlocks p net (Some arr)) = (Some arr, [])"
    using findIndex_from_absent [OF no_hit, of 0]
    by (auto simp: updateInnerBlocks_def findIndex_def)
  have "fst (updateInnerBlocks p net (Some arr)) = Inr ()" if "None \<notin> set arr"
  proof -
    have "isUpdated x = Inr False" if "x \<in> set arr" for x
    proof (cases x)
      case None
      with \<open>None \<notin> set arr\<close> that show ?thesis by simp
    next
      case (Some c)
      with assms that show ?thesis by (simp add: isUpdated_def)
    qed
    then have "\<forall>x\<in>set arr. isUpdated x = Inr False" by blast
    from findIndex_from_absent_defined [OF this, of 0] show ?thesis
      by (simp add: updateInnerBlocks_def findIndex_def)
  qed
  with frame show ?thesis by simp
qed

theorem updateInnerBlocks_none_updated_witness:
  "updateInnerBlocks ex_props ex_net
     (Some [Some (ex_item (JBool False) (JStr ''in'')), Some (ex_item JUndefined (JStr ''''))]) =
   (Inr (), Some [Some (ex_item (JBool False) (JStr ''in'')), Some (ex_item JUndefined (JStr ''''))], [])"
  using updateInnerBlocks_none_updated [of
      "[Some (ex_item (JBool False) (JStr ''in'')), Some (ex_item JUndefined (JStr ''''))]"
      ex_props ex_net]
  by (auto simp: ex_item_def prod_eq_iff)

text \<open>
  C10: when the first flagged item (index \<open>i\<close>; the items before it are blocks that
  are not flagged) has an override rule other than \<^verbatim>\<open>'in'\<close>, the merge sets that
  item's \<open>postUpdated\<close> to \<^verbatim>\<open>false\<close> and does nothing else: the other attributes of the
  item and the other items are as before, the array keeps its length, and there is no
  event (no fetch, no replacement, no write call).
\<close>

theorem updateInnerBlocks_other_rule:
  assumes "i < length arr" and "arr ! i = Some b"
    and "postUpdated (attributes b) = JBool True"
    and "\<forall>j<i. \<exists>c. arr ! j = Some c \<and> postUpdated (attributes c) \<noteq> JBool True"
    and "overrideRule (attributes b) \<noteq> JStr ''in''"
  shows "updateInnerBlocks p net (Some arr) =
    (Inr (),
     Some (arr[i := Some (b\<lparr>attributes := (attributes b)\<lparr>postUpdated := JBool False\<rparr>\<rparr>)]),
     [])"
  using assms(5) first_updated_index [OF assms(1-4)]
  by (simp add: updateInnerBlocks_def Let_def)

theorem updateInnerBlocks_other_rule_witness:
  "updateInnerBlocks ex_props ex_net
     (Some [Some (ex_item (JBool False) (JStr ''in'')), Some (ex_item (JBool True) (JStr ''out'')),
            Some (ex_item (JBool True) (JStr ''in''))]) =
   (Inr (),
    Some [Some (ex_item (JBool False) (JStr ''in'')), Some (ex_item (JBool False) (JStr ''out'')),
          Some (ex_item (JBool True) (JStr ''in''))],
    [])"
  using updateInnerBlocks_other_rule [of 1
      "[Some (ex_item (JBool False) (JStr ''in'')), Some (ex_item (JBool True) (JStr ''out'')),
        Some (ex_item (JBool True) (JStr ''in''))]"
      "ex_item (JBool True) (JStr ''out'')" ex_props ex_net]
  by (simp add: ex_item_def)

text \<open>
  C1 (as the code has it): when the first flagged item has the rule \<^verbatim>\<open>'in'\<close>, both
  names are set, the item's override post ID is neither \<^verbatim>\<open>undefined\<close> nor the empty
  string, and the endpoint answers the peek request for that ID with at least one
  record, the merge clears the item's flag and rule, inserts the block built from the
  first record right after the item (index \<open>i + 1\<close>), replaces the whole child list by
  the result, and then makes the write call. The result has one element more.
\<close>

theorem updateInnerBlocks_insert:
  assumes "i < length arr" and "arr ! i = Some b"
    and "postUpdated (attributes b) = JBool True"
    and "\<forall>j<i. \<exists>c. arr ! j = Some c \<and> postUpdated (attributes c) \<noteq> JBool True"
    and "overrideRule (attributes b) = JStr ''in''"
    and "pageName p \<noteq> ''''" and "widgetName p \<noteq> ''''"
    and "overridePostID (attributes b) \<noteq> JUndefined"
    and "overridePostID (attributes b) \<noteq> JStr ''''"
    and "net (getPostsRequest p (overridePostID (attributes b))) = Resolved (DataArray (d # ds))"
  shows
    "(let cleared = b\<lparr>attributes :=
                      (attributes b)\<lparr>postUpdated := JBool False, overrideRule := JStr ''''\<rparr>\<rparr>;
          fetched = createBlock ''sophi/page-list-item'' (itemAttributes p d);
          result = take i arr @ [Some cleared, Some fetched] @ drop (Suc i) arr
      in updateInnerBlocks p net (Some arr) =
           (Inr (), Some result,
            [ApiFetch (getPostsRequest p (overridePostID (attributes b))),
             ReplaceInnerBlocks (clientId p) result False]
              @ updatePost p net (JStr ''in'') (overridePostID (attributes b))
                  (overrideExpiry (attributes b)) (JNum (int i + 1)))
         \<and> length result = length arr + 1
         \<and> result ! i = Some cleared
         \<and> result ! (i + 1) = Some fetched)"
proof -
  let ?cleared = "b\<lparr>attributes :=
                      (attributes b)\<lparr>postUpdated := JBool False, overrideRule := JStr ''''\<rparr>\<rparr>"
  let ?fetched = "createBlock ''sophi/page-list-item'' (itemAttributes p d)"
  let ?result = "take i arr @ [Some ?cleared, Some ?fetched] @ drop (Suc i) arr"
  have shape: "splice (Suc i) x (arr[i := y]) = take i arr @ [y, x] @ drop (Suc i) arr" for x y
    using assms(1) by (simp add: splice_def take_Suc_conv_app_nth)
  have built: "onSettled p (Resolved (DataArray (d # ds))) =
      (Some ?fetched #
         map (\<lambda>item. Some (createBlock ''sophi/page-list-item'' (itemAttributes p item))) ds, [])"
    by (simp add: onSettled_def)
  have run: "updateInnerBlocks p net (Some arr) =
           (Inr (), Some ?result,
            [ApiFetch (getPostsRequest p (overridePostID (attributes b))),
             ReplaceInnerBlocks (clientId p) ?result False]
              @ updatePost p net (JStr ''in'') (overridePostID (attributes b))
                  (overrideExpiry (attributes b)) (JNum (int i + 1)))"
    by (simp add: updateInnerBlocks_in [OF assms(1-5)] getPosts_peek_result [OF assms(6-9)]
          assms(10) built shape at_def Let_def)
  have len: "length ?result = length arr + 1"
    using assms(1) by simp
  have here: "?result ! i = Some ?cleared"
    using assms(1) by (simp add: nth_append)
  have after: "?result ! (i + 1) = Some ?fetched"
    using assms(1) by (simp add: nth_append)
  show ?thesis
    unfolding Let_def using run len here after by blast
qed

theorem updateInnerBlocks_insert_witness:
  "updateInnerBlocks ex_props ex_net
     (Some [Some (ex_item (JBool False) (JStr '''')), Some (ex_item (JBool True) (JStr ''in'')),
            Some (ex_item (JBool True) (JStr ''in''))]) =
   (Inr (),
    Some [Some (ex_item (JBool False) (JStr '''')), Some (ex_item (JBool False) (JStr '''')),
          Some (createBlock ''sophi/page-list-item'' (itemAttributes ex_props ex_record)),
          Some (ex_item (JBool True) (JStr ''in''))],
    [ApiFetch (getPostsRequest ex_props (JNum 42)),
     ReplaceInnerBlocks ''c1''
       [Some (ex_item (JBool False) (JStr '''')), Some (ex_item (JBool False) (JStr '''')),
        Some (createBlock ''sophi/page-list-item'' (itemAttributes ex_props ex_record)),
        Some (ex_item (JBool True) (JStr ''in''))] False,
     ApiFetch (updatePostRequest ex_props (JStr ''in'') (JNum 42) (JStr ''2'') (JNum 2)),
     ConsoleLog (LogData (DataArray [ex_record]))])"
  using updateInnerBlocks_insert [of 1
      "[Some (ex_item (JBool False) (JStr '''')), Some (ex_item (JBool True) (JStr ''in'')),
        Some (ex_item (JBool True) (JStr ''in''))]"
      "ex_item (JBool True) (JStr ''in'')" ex_props ex_net ex_record "[]"]
  by (simp add: ex_item_def ex_props_def ex_net_def updatePost_def Let_def)

text \<open>
  C1 as stated fails for a block whose page name is empty: \<open>getPosts\<close> returns
  \<^verbatim>\<open>undefined\<close> before any request, reading its element 0 throws, and the list keeps
  its length; nothing is inserted and nothing replaced.
\<close>

theorem updateInnerBlocks_insert_needs_names:
  "updateInnerBlocks (ex_props\<lparr>pageName := ''''\<rparr>) ex_net
     (Some [Some (ex_item (JBool True) (JStr ''in''))]) =
   (Inl TypeError, Some [Some (ex_item (JBool False) (JStr ''''))], [])"
  by (simp add: updateInnerBlocks_def findIndex_def isUpdated_def at_def getPosts_def
        ex_item_def ex_props_def Let_def)

text \<open>
  C7 (as the code has it): after the insertion, the merge reports the change by one
  \<^verbatim>\<open>POST\<close> request to \<^verbatim>\<open>update-posts\<close>, issued right after the replacement. The
  six fields \<open>ruleType = 'in'\<close>, \<open>overridePostID\<close>, \<open>overrideExpiry\<close>,
  \<open>position = i + 1\<close>, \<open>pageName\<close> and \<open>widgetName\<close> travel as query arguments of the
  path; the request has no body. The response is only logged: a merge run against a
  network that differs in this answer ends the same way with the same list.
\<close>

theorem updateInnerBlocks_reports:
  assumes "i < length arr" and "arr ! i = Some b"
    and "postUpdated (attributes b) = JBool True"
    and "\<forall>j<i. \<exists>c. arr ! j = Some c \<and> postUpdated (attributes c) \<noteq> JBool True"
    and "overrideRule (attributes b) = JStr ''in''"
    and "pageName p \<noteq> ''''" and "widgetName p \<noteq> ''''"
    and "overridePostID (attributes b) \<noteq> JUndefined"
    and "overridePostID (attributes b) \<noteq> JStr ''''"
  shows
    "(let wreq =
            \<lparr>path = (''/sophi/v1/update-posts'',
                     [(''ruleType'', JStr ''in''),
                      (''overridePostID'', overridePostID (attributes b)),
                      (''overrideExpiry'', overrideExpiry (attributes b)),
                      (''position'', JNum (int i + 1)),
                      (''pageName'', JStr (pageName p)),
                      (''widgetName'', JStr (widgetName p))]),
             http_method = POST, data = None\<rparr>
      in (\<exists>result evs.
            updateInnerBlocks p net (Some arr) =
              (Inr (), Some result,
               evs @ [ReplaceInnerBlocks (clientId p) result False,
                      ApiFetch wreq,
                      (case net wreq of
                         Resolved d \<Rightarrow> ConsoleLog (LogData d)
                       | Rejected err \<Rightarrow> ConsoleDir (LogErr err))])
            \<and> getPosts p net (overridePostID (attributes b)) =
                (Some (fst (onSettled p (net (getPostsRequest p (overridePostID (attributes b)))))), evs))
         \<and> (\<forall>net'. net' (getPostsRequest p (overridePostID (attributes b))) =
                      net (getPostsRequest p (overridePostID (attributes b))) \<longrightarrow>
                fst (updateInnerBlocks p net' (Some arr)) = fst (updateInnerBlocks p net (Some arr))
              \<and> fst (snd (updateInnerBlocks p net' (Some arr))) =
                  fst (snd (updateInnerBlocks p net (Some arr)))))"
proof -
  let ?ov = "overridePostID (attributes b)"
  let ?req = "getPostsRequest p ?ov"
  let ?arr2 = "arr[i := Some (b\<lparr>attributes :=
                    (attributes b)\<lparr>postUpdated := JBool False, overrideRule := JStr ''''\<rparr>\<rparr>)]"
  have run: "updateInnerBlocks p n (Some arr) =
      (Inr (), Some (splice (Suc i) (at (fst (onSettled p (n ?req))) 0) ?arr2),
       (ApiFetch ?req # snd (onSettled p (n ?req)))
         @ [ReplaceInnerBlocks (clientId p)
              (splice (Suc i) (at (fst (onSettled p (n ?req))) 0) ?arr2) False]
         @ updatePost p n (JStr ''in'') ?ov (overrideExpiry (attributes b)) (JNum (int i + 1)))"
    for n
    by (simp add: updateInnerBlocks_in [OF assms(1-5)] getPosts_peek_result [OF assms(6-9)] Let_def)
  have post: "updatePost p net (JStr ''in'') ?ov (overrideExpiry (attributes b)) (JNum (int i + 1)) =
      [ApiFetch
         \<lparr>path = (''/sophi/v1/update-posts'',
                  [(''ruleType'', JStr ''in''),
                   (''overridePostID'', ?ov),
                   (''overrideExpiry'', overrideExpiry (attributes b)),
                   (''position'', JNum (int i + 1)),
                   (''pageName'', JStr (pageName p)),
                   (''widgetName'', JStr (widgetName p))]),
          http_method = POST, data = None\<rparr>,
       (case net \<lparr>path = (''/sophi/v1/update-posts'',
                  [(''ruleType'', JStr ''in''),
                   (''overridePostID'', ?ov),
                   (''overrideExpiry'', overrideExpiry (attributes b)),
                   (''position'', JNum (int i + 1)),
                   (''pageName'', JStr (pageName p)),
                   (''widgetName'', JStr (widgetName p))]),
          http_method = POST, data = None\<rparr> of
          Resolved d \<Rightarrow> ConsoleLog (LogData d)
        | Rejected err \<Rightarrow> ConsoleDir (LogErr err))]"
    by (simp add: updatePost_def updatePostRequest_def addQueryArgs_def sophiEndpoint_def Let_def
          split: response.splits)
  show ?thesis
    unfolding Let_def
  proof (intro conjI allI impI)
    show "\<exists>result evs.
       updateInnerBlocks p net (Some arr) =
       (Inr (), Some result,
        evs @
        [ReplaceInnerBlocks (clientId p) result False,
         ApiFetch
          \<lparr>path = (''/sophi/v1/update-posts'',
                  [(''ruleType'', JStr ''in''),
                   (''overridePostID'', ?ov),
                   (''overrideExpiry'', overrideExpiry (attributes b)),
                   (''position'', JNum (int i + 1)),
                   (''pageName'', JStr (pageName p)),
                   (''widgetName'', JStr (widgetName p))]),
             http_method = POST, data = None\<rparr>,
         case net
               \<lparr>path = (''/sophi/v1/update-posts'',
                  [(''ruleType'', JStr ''in''),
                   (''overridePostID'', ?ov),
                   (''overrideExpiry'', overrideExpiry (attributes b)),
                   (''position'', JNum (int i + 1)),
                   (''pageName'', JStr (pageName p)),
                   (''widgetName'', JStr (widgetName p))]),
                  http_method = POST, data = None\<rparr> of
         Resolved d \<Rightarrow> ConsoleLog (LogData d)
         | Rejected err \<Rightarrow> ConsoleDir (LogErr err)]) \<and>
       getPosts p net ?ov = (Some (fst (onSettled p (net ?req))), evs)"
      by (intro exI [of _ "splice (Suc i) (at (fst (onSettled p (net ?req))) 0) ?arr2"]
            exI [of _ "ApiFetch ?req # snd (onSettled p (net ?req))"])
        (simp add: run post getPosts_peek_result [OF assms(6-9)])
  next
    fix net' assume "net' ?req = net ?req"
    then show "fst (updateInnerBlocks p net' (Some arr)) = fst (updateInnerBlocks p net (Some arr))"
      by (simp add: run)
  next
    fix net' assume "net' ?req = net ?req"
    then show "fst (snd (updateInnerBlocks p net' (Some arr))) =
                fst (snd (updateInnerBlocks p net (Some arr)))"
      by (simp add: run)
  qed
qed

theorem updateInnerBlocks_reports_witness:
  "\<exists>result evs.
     updateInnerBlocks ex_props ex_net (Some [Some (ex_item (JBool True) (JStr ''in''))]) =
       (Inr (), Some result,
        evs @ [ReplaceInnerBlocks ''c1'' result False,
               ApiFetch
                 \<lparr>path = (''/sophi/v1/update-posts'',
                          [(''ruleType'', JStr ''in''), (''overridePostID'', JNum 42),
                           (''overrideExpiry'', JStr ''2''), (''position'', JNum 1),
                           (''pageName'', JStr ''home''), (''widgetName'', JStr ''top'')]),
                  http_method = POST, data = None\<rparr>,
               ConsoleLog (LogData (DataArray [ex_record]))])"
proof -
  have "\<exists>result evs.
     updateInnerBlocks ex_props ex_net (Some [Some (ex_item (JBool True) (JStr ''in''))]) =
       (Inr (), Some result,
        evs @ [ReplaceInnerBlocks ''c1'' result False,
               ApiFetch
                 \<lparr>path = (''/sophi/v1/update-posts'',
                          [(''ruleType'', JStr ''in''), (''overridePostID'', JNum 42),
                           (''overrideExpiry'', JStr ''2''), (''position'', JNum 1),
                           (''pageName'', JStr ''home''), (''widgetName'', JStr ''top'')]),
                  http_method = POST, data = None\<rparr>,
               ConsoleLog (LogData (DataArray [ex_record]))])
     \<and> getPosts ex_props ex_net (JNum 42) =
         (Some (fst (onSettled ex_props (ex_net (getPostsRequest ex_props (JNum 42))))), evs)"
    using updateInnerBlocks_reports [of 0 "[Some (ex_item (JBool True) (JStr ''in''))]"
        "ex_item (JBool True) (JStr ''in'')" ex_props ex_net]
    by (simp add: ex_item_def ex_props_def ex_net_def Let_def)
  then show ?thesis by blast
qed

text \<open>
  C7 as stated fails on where the fields travel: in the write request of this run the
  body \<open>data\<close> is absent and the six fields are in the query of the path.
\<close>

theorem updateInnerBlocks_reports_in_query:
  "snd (snd (updateInnerBlocks ex_props ex_net (Some [Some (ex_item (JBool True) (JStr ''in''))]))) =
     [ApiFetch (getPostsRequest ex_props (JNum 42)),
      ReplaceInnerBlocks ''c1''
        [Some (ex_item (JBool False) (JStr '''')),
         Some (createBlock ''sophi/page-list-item'' (itemAttributes ex_props ex_record))] False,
      ApiFetch
        \<lparr>path = (''/sophi/v1/update-posts'',
                 [(''ruleType'', JStr ''in''), (''overridePostID'', JNum 42),
                  (''overrideExpiry'', JStr ''2''), (''position'', JNum 1),
                  (''pageName'', JStr ''home''), (''widgetName'', JStr ''top'')]),
         http_method = POST, data = None\<rparr>,
      ConsoleLog (LogData (DataArray [ex_record]))]"
  by (simp add: updateInnerBlocks_def findIndex_def isUpdated_def at_def getPosts_def
        onSettled_def splice_def updatePost_def updatePostRequest_def addQueryArgs_def
        sophiEndpoint_def ex_item_def ex_props_def ex_net_def Let_def)

text \<open>
  C8: the merge reads element 0 of the peek result without a guard. When the peek
  result is the empty array, the merge still splices: the element at \<open>i + 1\<close> of the
  new list is the missing element (\<^verbatim>\<open>undefined\<close>), the list is one longer, the child
  list is replaced by it and the write call is made.
\<close>

theorem updateInnerBlocks_empty_fetch:
  assumes "i < length arr" and "arr ! i = Some b"
    and "postUpdated (attributes b) = JBool True"
    and "\<forall>j<i. \<exists>c. arr ! j = Some c \<and> postUpdated (attributes c) \<noteq> JBool True"
    and "overrideRule (attributes b) = JStr ''in''"
    and "getPosts p net (overridePostID (attributes b)) = (Some [], evs)"
  shows
    "(let cleared = b\<lparr>attributes :=
                      (attributes b)\<lparr>postUpdated := JBool False, overrideRule := JStr ''''\<rparr>\<rparr>;
          result = take i arr @ [Some cleared, None] @ drop (Suc i) arr
      in updateInnerBlocks p net (Some arr) =
           (Inr (), Some result,
            evs @ [ReplaceInnerBlocks (clientId p) result False]
              @ updatePost p net (JStr ''in'') (overridePostID (attributes b))
                  (overrideExpiry (attributes b)) (JNum (int i + 1)))
         \<and> result ! (i + 1) = None
         \<and> length result = length arr + 1)"
proof -
  have shape: "splice (Suc i) x (arr[i := y]) = take i arr @ [y, x] @ drop (Suc i) arr" for x y
    using assms(1) by (simp add: splice_def take_Suc_conv_app_nth)
  have missing: "at ([] :: blocks) 0 = None"
    by (simp add: at_def)
  show ?thesis
    using assms(1)
    by (simp add: updateInnerBlocks_in [OF assms(1-5)] assms(6) shape missing Let_def nth_append)
qed

theorem updateInnerBlocks_empty_fetch_witness:
  "updateInnerBlocks ex_props ex_net_empty (Some [Some (ex_item (JBool True) (JStr ''in''))]) =
     (Inr (), Some [Some (ex_item (JBool False) (JStr '''')), None],
      [ApiFetch (getPostsRequest ex_props (JNum 42)), Alert ''Posts not found in the site!'',
       ReplaceInnerBlocks ''c1'' [Some (ex_item (JBool False) (JStr '''')), None] False]
        @ updatePost ex_props ex_net_empty (JStr ''in'') (JNum 42) (JStr ''2'') (JNum 1))"
  using updateInnerBlocks_empty_fetch [of 0 "[Some (ex_item (JBool True) (JStr ''in''))]"
      "ex_item (JBool True) (JStr ''in'')" ex_props ex_net_empty
      "[ApiFetch (getPostsRequest ex_props (JNum 42)), Alert ''Posts not found in the site!'']"]
    getPosts_peek_result [of ex_props "JNum 42" ex_net_empty]
  by (simp add: ex_item_def ex_props_def ex_net_empty_def onSettled_def Let_def)

end
